theory Spec2Isabelle
  imports Main "HOL-Library.Sublist"
begin

section \<open>Strings of the source language\<close>

text \<open>
  A TypeScript string is modelled as a \<^typ>\<open>string\<close>: a list of 8-bit characters, each
  read as one code unit in the range U+0000..U+00FF, so that \<open>length\<close> is the source's
  \<open>.length\<close> on such texts. Glyphs of the source's literals that lie outside that range (the
  bullet and the siren of the response texts) only ever appear in output; they are written
  as the bytes of their UTF-8 encoding.
\<close>

definition isWhiteSpace :: "char \<Rightarrow> bool" where
  \<comment> \<open>the characters \<open>String.prototype.trim\<close> strips, below U+0100\<close>
  "isWhiteSpace c = (of_char c \<in> {9, 10, 11, 12, 13, 32, 160 :: nat})"

definition trim :: "string \<Rightarrow> string" where
  "trim s = rev (dropWhile isWhiteSpace (rev (dropWhile isWhiteSpace s)))"

definition toLowerChar :: "char \<Rightarrow> char" where
  \<comment> \<open>A..Z and the capital letters U+00C0..U+00DE (without the multiplication sign)\<close>
  "toLowerChar c =
     (let n = (of_char c :: nat)
      in if (65 \<le> n \<and> n \<le> 90) \<or> (192 \<le> n \<and> n \<le> 222 \<and> n \<noteq> 215)
         then char_of (n + 32) else c)"

definition toLowerCase :: "string \<Rightarrow> string" where
  "toLowerCase s = map toLowerChar s"

fun includes_str :: "string \<Rightarrow> string \<Rightarrow> bool" where
  \<comment> \<open>\<open>s.includes(k)\<close>: \<open>k\<close> occurs in \<open>s\<close> as a contiguous run\<close>
  "includes_str [] k = (k = [])"
| "includes_str (c # cs) k = (prefix k (c # cs) \<or> includes_str cs k)"

fun join :: "string \<Rightarrow> string list \<Rightarrow> string" where
  \<comment> \<open>\<open>xs.join(sep)\<close>\<close>
  "join sep [] = []"
| "join sep [x] = x"
| "join sep (x # y # ys) = x @ sep @ join sep (y # ys)"

definition truthy :: "string option \<Rightarrow> bool" where
  \<comment> \<open>a value of type \<open>string | null\<close> in a boolean position\<close>
  "truthy v = (case v of None \<Rightarrow> False | Some s \<Rightarrow> s \<noteq> [])"

definition js_or :: "string option \<Rightarrow> string option \<Rightarrow> string option" where
  \<comment> \<open>\<open>a || b\<close>\<close>
  "js_or a b = (if truthy a then a else b)"

definition js_str :: "string option \<Rightarrow> string" where
  \<comment> \<open>a \<open>string | null\<close> inside a template literal\<close>
  "js_str v = (case v of None \<Rightarrow> ''null'' | Some s \<Rightarrow> s)"

definition digit_char :: "nat \<Rightarrow> char" where
  "digit_char d = ''0123456789'' ! (d mod 10)"

fun decimal_digits :: "nat \<Rightarrow> string" where
  "decimal_digits n =
     (if n div 10 = 0 then [digit_char n] else decimal_digits (n div 10) @ [digit_char n])"

declare decimal_digits.simps [simp del]

definition number_toString :: "int \<Rightarrow> string" where
  \<comment> \<open>an integral \<open>number\<close> inside a template literal\<close>
  "number_toString i =
     (if i < 0 then CHR ''-'' # decimal_digits (nat (- i)) else decimal_digits (nat i))"

section \<open>Session key: \<open>MessageService.generateSessionId\<close>\<close>

definition utf8_unit :: "char \<Rightarrow> nat list" where
  \<comment> \<open>\<open>Buffer.from(s)\<close> encodes in UTF-8: one byte below U+0080, two bytes up to U+00FF\<close>
  "utf8_unit c =
     (let n = (of_char c :: nat)
      in if n < 128 then [n] else [192 + n div 64, 128 + n mod 64])"

definition Buffer_from :: "string \<Rightarrow> nat list" where
  "Buffer_from s = concat (map utf8_unit s)"

definition base64_alphabet :: string where
  "base64_alphabet = ''ABCDEFGHIJKLMNOPQRSTUVWXYZabcdefghijklmnopqrstuvwxyz0123456789+/''"

definition b64 :: "nat \<Rightarrow> char" where
  "b64 n = base64_alphabet ! (n mod 64)"

fun toString_base64 :: "nat list \<Rightarrow> string" where
  \<comment> \<open>\<open>buf.toString('base64')\<close>: three bytes give four symbols, the tail is padded\<close>
  "toString_base64 [] = []"
| "toString_base64 [a] = [b64 (a div 4), b64 ((a mod 4) * 16), CHR ''='', CHR ''='']"
| "toString_base64 [a, b] =
     [b64 (a div 4), b64 ((a mod 4) * 16 + b div 16), b64 ((b mod 16) * 4), CHR ''='']"
| "toString_base64 (a # b # c # r) =
     [b64 (a div 4), b64 ((a mod 4) * 16 + b div 16), b64 ((b mod 16) * 4 + c div 64), b64 (c mod 64)]
     @ toString_base64 r"

definition generateSessionId :: "string \<Rightarrow> string" where
  "generateSessionId userPhone = ''user-'' @ take 16 (toString_base64 (Buffer_from userPhone))"

definition maskPhoneNumber :: "string \<Rightarrow> string" where
  "maskPhoneNumber phone =
     (if length phone < 4 then ''***''
      else take 2 phone @ ''***'' @ drop (length phone - 2) phone)"

section \<open>Reference data and responses\<close>

text \<open>
  The rows of \<open>types/database.ts\<close>. A field \<open>f\<close> of the source is the field \<open>svc_f\<close>,
  \<open>con_f\<close>, \<open>step_f\<close> or \<open>doc_f\<close> here, since several rows share field names. A column of
  type \<open>string | null\<close> is a \<^typ>\<open>string option\<close>; a \<open>number\<close> column holds an integer.
\<close>

record Service =
  svc_id :: int
  svc_category :: string
  svc_organization :: string
  svc_services :: string
  svc_contact_phone :: "string option"
  svc_contact_email :: "string option"
  svc_location :: "string option"
  svc_notes :: "string option"
  svc_created_at :: string
  svc_updated_at :: string

record Contact =
  con_id :: int
  con_entity :: string
  con_phone :: "string option"
  con_email :: "string option"
  con_description :: "string option"
  con_type :: string
  con_is_urgent :: bool
  con_notes :: "string option"
  con_created_at :: string
  con_updated_at :: string

record RegistrationStep =
  step_id :: int
  step_step_number :: int
  step_title :: string
  step_description :: string
  step_requirements :: "string option"
  step_estimated_duration :: "string option"
  step_created_at :: string
  step_updated_at :: string

record RequiredDocument =
  doc_id :: int
  doc_document_name :: string
  doc_description :: "string option"
  doc_is_essential :: bool
  doc_notes :: "string option"
  doc_created_at :: string
  doc_updated_at :: string

text \<open>\<open>BotResponse\<close>; its optional \<open>metadata\<close> is never set by the code modelled here.\<close>

record BotResponse =
  message :: string
  quickReplies :: "string list option"

definition NL :: string where
  "NL = [CHR 0x0A]"

definition BULLET :: string where
  \<comment> \<open>U+2022\<close>
  "BULLET = [CHR 0xE2, CHR 0x80, CHR 0xA2]"

definition SIREN :: string where
  \<comment> \<open>U+1F6A8\<close>
  "SIREN = [CHR 0xF0, CHR 0x9F, CHR 0x9A, CHR 0xA8]"

definition QUICK_REPLIES_REGISTRATION :: "string list" where
  "QUICK_REPLIES_REGISTRATION = [''Contact Details'', ''Required Documents'', ''Registration Steps'']"

definition QUICK_REPLIES_FOOD :: "string list" where
  "QUICK_REPLIES_FOOD = [''Settlement Info'', ''WFP Contacts'', ''Distribution Points'']"

definition QUICK_REPLIES_HEALTHCARE :: "string list" where
  "QUICK_REPLIES_HEALTHCARE = [''Emergency Number'', ''Hospital Info'', ''Settlement Clinics'']"

definition FIND_REGISTRATION :: string where "FIND_REGISTRATION = ''find_registration''"
definition FIND_FOOD :: string where "FIND_FOOD = ''find_food''"
definition FIND_SHELTER :: string where "FIND_SHELTER = ''find_shelter''"
definition FIND_HEALTHCARE :: string where "FIND_HEALTHCARE = ''find_healthcare''"
definition FIND_EMERGENCY_CONTACTS :: string where "FIND_EMERGENCY_CONTACTS = ''find_emergency_contacts''"

section \<open>Arrays\<close>

text \<open>
  An array argument is shared with the caller, so each array method is given with its
  effect on the receiver: the value of the call, and the contents of the receiver
  afterwards. \<open>sort\<close> orders the receiver in place (stably, by the comparator) and returns
  it; \<open>filter\<close> and \<open>map\<close> build a new array and leave the receiver as it was.
\<close>

fun insort_cmp :: "('a \<Rightarrow> 'a \<Rightarrow> int) \<Rightarrow> 'a \<Rightarrow> 'a list \<Rightarrow> 'a list" where
  "insort_cmp cmp x [] = [x]"
| "insort_cmp cmp x (y # ys) = (if cmp x y \<le> 0 then x # y # ys else y # insort_cmp cmp x ys)"

definition sort_cmp :: "('a \<Rightarrow> 'a \<Rightarrow> int) \<Rightarrow> 'a list \<Rightarrow> 'a list" where
  "sort_cmp cmp xs = foldr (insort_cmp cmp) xs []"

definition Array_sort :: "('a \<Rightarrow> 'a \<Rightarrow> int) \<Rightarrow> 'a list \<Rightarrow> 'a list \<times> 'a list" where
  "Array_sort cmp xs = (sort_cmp cmp xs, sort_cmp cmp xs)"

definition Array_filter :: "('a \<Rightarrow> bool) \<Rightarrow> 'a list \<Rightarrow> 'a list \<times> 'a list" where
  "Array_filter p xs = (filter p xs, xs)"

definition Array_map :: "('a \<Rightarrow> 'b) \<Rightarrow> 'a list \<Rightarrow> 'b list \<times> 'a list" where
  "Array_map f xs = (map f xs, xs)"

section \<open>Response composition: \<open>ResponseFormatter\<close>\<close>

definition stepLine :: "RegistrationStep \<Rightarrow> string" where
  "stepLine step =
     number_toString (step_step_number step) @ ''. '' @ step_title step @ '': '' @ step_description step"

definition documentLine :: "RequiredDocument \<Rightarrow> string" where
  "documentLine doc =
     BULLET @ '' '' @ doc_document_name doc @ (if doc_is_essential doc then '' (Essential)'' else [])"

definition formatRegistrationResponse ::
  "RegistrationStep list \<Rightarrow> RequiredDocument list \<Rightarrow> Contact list
     \<Rightarrow> BotResponse \<times> (RegistrationStep list \<times> RequiredDocument list \<times> Contact list)" where
  \<comment> \<open>the response, and the three argument arrays as the call leaves them\<close>
  "formatRegistrationResponse steps documents contacts =
     (let (sorted, steps1) = Array_sort (\<lambda>a b. step_step_number a - step_step_number b) steps;
          (stepLines, sorted1) = Array_map stepLine sorted;
          stepDescriptions = join NL stepLines;
          (documentLines, documents1) = Array_map documentLine documents;
          documentList = join NL documentLines;
          message = ''I can help with refugee registration. Here's the process:'' @ NL @ NL
            @ stepDescriptions @ NL @ NL @ ''Required Documents:'' @ NL @ documentList @ NL @ NL
            @ ''Would you like more details about any specific step?''
      in (\<lparr>message = message, quickReplies = Some QUICK_REPLIES_REGISTRATION\<rparr>,
          (steps1, documents1, contacts)))"

definition foodLine :: "Service \<Rightarrow> string" where
  "foodLine service =
     BULLET @ '' '' @ svc_organization service @ '': '' @ svc_services service
     @ (if truthy (svc_location service) then '' ('' @ js_str (svc_location service) @ '')'' else [])"

definition FOOD_GUIDANCE_MESSAGE :: string where
  \<comment> \<open>the text of the branch without food services\<close>
  "FOOD_GUIDANCE_MESSAGE = ''Food assistance is primarily provided by the World Food Programme (WFP) to registered refugees in settlements. Please ensure you are registered with OPM to access these services.''"

definition formatFoodResponse :: "Service list \<Rightarrow> BotResponse" where
  \<comment> \<open>only \<open>filter\<close>, \<open>map\<close> and \<open>join\<close> touch the argument\<close>
  "formatFoodResponse services =
     (let foodServices =
            filter (\<lambda>service. svc_category service = ''Food''
                                 \<or> includes_str (svc_organization service) ''WFP'') services
      in if length foodServices = 0
         then \<lparr>message = FOOD_GUIDANCE_MESSAGE, quickReplies = Some QUICK_REPLIES_FOOD\<rparr>
         else let serviceInfo = join NL (map foodLine foodServices);
                  message = ''Food assistance options:'' @ NL @ NL @ serviceInfo @ NL @ NL
                    @ ''Note: Most food aid requires official registration and is distributed through settlements.''
              in \<lparr>message = message, quickReplies = Some QUICK_REPLIES_FOOD\<rparr>)"

definition healthServiceLine :: "Service \<Rightarrow> string" where
  "healthServiceLine service =
     BULLET @ '' '' @ svc_organization service @ '': '' @ svc_services service
     @ (if truthy (svc_contact_phone service) then '' - '' @ js_str (svc_contact_phone service) else [])"

definition hospitalContactLine :: "Contact \<Rightarrow> string" where
  "hospitalContactLine contact =
     BULLET @ '' '' @ con_entity contact @ '': '' @ js_str (con_phone contact)
     @ (if truthy (con_description contact) then '' - '' @ js_str (con_description contact) else [])"

definition formatHealthcareResponse :: "Service list \<Rightarrow> Contact list \<Rightarrow> BotResponse" where
  \<comment> \<open>only \<open>filter\<close>, \<open>map\<close> and \<open>join\<close> touch the arguments\<close>
  "formatHealthcareResponse services contacts =
     (let healthServices = filter (\<lambda>service. svc_category service = ''Health'') services;
          emergencyContacts =
            filter (\<lambda>contact. con_type contact = ''Emergency'' \<or> con_type contact = ''Hospital'') contacts;
          message0 = ''Healthcare services available:'' @ NL @ NL;
          message1 = (if length healthServices > 0
                      then message0 @ join NL (map healthServiceLine healthServices) else message0);
          message2 = (if length emergencyContacts > 0
                      then message1 @ NL @ NL @ ''Emergency Contacts:'' @ NL
                             @ join NL (map hospitalContactLine emergencyContacts)
                      else message1)
      in \<lparr>message = message2, quickReplies = Some QUICK_REPLIES_HEALTHCARE\<rparr>)"

definition contactLine :: "Contact \<Rightarrow> string" where
  "contactLine contact =
     BULLET @ '' '' @ con_entity contact @ '': '' @ js_str (js_or (con_phone contact) (con_email contact))
     @ (if truthy (con_description contact) then '' - '' @ js_str (con_description contact) else [])"

definition isUrgentContact :: "Contact \<Rightarrow> bool" where
  "isUrgentContact contact = (con_is_urgent contact \<or> con_type contact = ''Emergency'')"

definition isGeneralContact :: "Contact \<Rightarrow> bool" where
  "isGeneralContact contact = (\<not> con_is_urgent contact \<and> con_type contact \<noteq> ''Emergency'')"

definition formatEmergencyContacts :: "Contact list \<Rightarrow> BotResponse \<times> Contact list" where
  \<comment> \<open>the response, and the argument array as the call leaves it\<close>
  "formatEmergencyContacts contacts =
     (let (filtered, contacts1) = Array_filter isUrgentContact contacts;
          (urgentContacts, filtered1) =
            Array_sort (\<lambda>a b. (if con_is_urgent b then 1 else 0) - (if con_is_urgent a then 1 else 0)) filtered;
          (generalContacts, contacts2) = Array_filter isGeneralContact contacts1;
          message0 = SIREN @ '' **Emergency & Important Contacts**'' @ NL @ NL;
          message1 = (if length urgentContacts > 0
                      then message0 @ ''**URGENT CONTACTS:**'' @ NL @ join NL (map contactLine urgentContacts)
                      else message0);
          message2 = (if length generalContacts > 0
                      then message1 @ NL @ NL @ ''**OTHER IMPORTANT CONTACTS:**'' @ NL
                             @ join NL (map contactLine generalContacts)
                      else message1)
      in (\<lparr>message = message2,
           quickReplies = Some [''More Contacts'', ''Registration Help'', ''Healthcare Info'']\<rparr>,
          contacts2))"

definition formatErrorResponse :: BotResponse where
  "formatErrorResponse =
     \<lparr>message = ''Sorry, I encountered an error while processing your request. Please try again or contact support if the issue persists.'',
      quickReplies = None\<rparr>"

definition formatWelcomeResponse :: BotResponse where
  "formatWelcomeResponse =
     \<lparr>message = ''Hello! I'm here to provide information for refugees and displaced people in Mbarara. I can help you find information about registration, food, shelter, healthcare, and emergency contacts. What do you need help with today?'',
      quickReplies = Some [''Registration'', ''Food'', ''Shelter'', ''Healthcare'', ''Emergency Contacts'']\<rparr>"

section \<open>Effects and failures\<close>

text \<open>
  A thrown \<open>Error\<close> is the left summand of a sum; a function that may throw returns
  \<open>error + 'a\<close>. What a function does to the outside world is the list of events it
  returns with its result, in the order they happen: each \<open>AppLogger\<close> call (level and
  text) and each request to a collaborator (the remote natural-language service and the
  reference-data repositories). Writing a log line is taken not to throw, and the
  arguments are strings, as the signatures type them.
\<close>

datatype error = Error string

datatype event =
    Log string string
  | Call_detectIntent string string
  | Call_getServicesByCategory string
  | Call_getContactsByType string
  | Call_getAllContacts
  | Call_getAllSteps
  | Call_getRequiredDocuments
  | Call_validateRequest

section \<open>Intent resolution: \<open>DialogflowService\<close>\<close>

text \<open>
  The part of the remote answer the code reads: \<open>queryResult.intent?.displayName\<close> and
  \<open>queryResult.fulfillmentText\<close> (the \<open>parameters\<close> are only logged).
\<close>

record QueryResult =
  intent_displayName :: "string option"
  fulfillmentText :: "string option"

text \<open>
  The remote service and the database behind the repositories are the outside world: it
  has a state of some type \<open>'w\<close>, about which nothing is assumed. Every request to a
  collaborator takes the state it finds and gives its answer (rows, or the error it
  throws) with the state it leaves, so the same query may be answered differently the
  next time it is made. \<open>sessionsClient\<close> is \<open>null\<close> or a client, whose \<open>detectIntent\<close> maps
  a session path and a text to a thrown error, to a response without \<open>queryResult\<close>, or
  to a \<open>queryResult\<close>. A function of the service takes the state and returns its result,
  its events and the state afterwards.
\<close>

record 'w DialogflowService =
  sessionsClient :: "(string \<Rightarrow> string \<Rightarrow> 'w \<Rightarrow> (error + QueryResult option) \<times> 'w) option"
  projectId :: "string option"
  isEnabled :: bool
  getServicesByCategory :: "string \<Rightarrow> 'w \<Rightarrow> (error + Service list) \<times> 'w"
  getContactsByType :: "string \<Rightarrow> 'w \<Rightarrow> (error + Contact list) \<times> 'w"
  getAllContacts :: "'w \<Rightarrow> (error + Contact list) \<times> 'w"
  getAllSteps :: "'w \<Rightarrow> (error + RegistrationStep list) \<times> 'w"
  getRequiredDocuments :: "'w \<Rightarrow> (error + RequiredDocument list) \<times> 'w"

definition handleRegistrationIntent ::
  "'w DialogflowService \<Rightarrow> 'w \<Rightarrow> (error + BotResponse) \<times> event list \<times> 'w" where
  \<comment> \<open>\<open>Promise.all\<close>: the three queries are issued in turn, and one failure fails the whole\<close>
  "handleRegistrationIntent svc w =
     (let (r1, w1) = getAllSteps svc w;
          (r2, w2) = getRequiredDocuments svc w1;
          (r3, w3) = getContactsByType svc ''General'' w2
      in ((case r1 of Inl e \<Rightarrow> Inl e | Inr steps \<Rightarrow>
           (case r2 of Inl e \<Rightarrow> Inl e | Inr documents \<Rightarrow>
            (case r3 of Inl e \<Rightarrow> Inl e | Inr contacts \<Rightarrow>
               Inr (fst (formatRegistrationResponse steps documents contacts))))),
          [Call_getAllSteps, Call_getRequiredDocuments, Call_getContactsByType ''General''],
          w3))"

definition handleFoodIntent ::
  "'w DialogflowService \<Rightarrow> 'w \<Rightarrow> (error + BotResponse) \<times> event list \<times> 'w" where
  "handleFoodIntent svc w =
     (let (r, w1) = getServicesByCategory svc ''Food'' w
      in ((case r of Inl e \<Rightarrow> Inl e | Inr services \<Rightarrow> Inr (formatFoodResponse services)),
          [Call_getServicesByCategory ''Food''],
          w1))"

definition SHELTER_BULLET :: string where
  \<comment> \<open>the source text here holds U+00E2, U+20AC, U+00A2 (a bullet decoded wrongly); U+20AC is
      written as its three UTF-8 bytes\<close>
  "SHELTER_BULLET = [CHR 0xE2, CHR 0xE2, CHR 0x82, CHR 0xAC, CHR 0xA2]"

definition shelterLine :: "Service \<Rightarrow> string" where
  "shelterLine service =
     SHELTER_BULLET @ '' '' @ svc_organization service @ '': '' @ svc_services service
     @ (if truthy (svc_location service) then '' ('' @ js_str (svc_location service) @ '')'' else [])"

definition handleShelterIntent ::
  "'w DialogflowService \<Rightarrow> 'w \<Rightarrow> (error + BotResponse) \<times> event list \<times> 'w" where
  "handleShelterIntent svc w =
     (let (r, w1) = getServicesByCategory svc ''Shelter'' w
      in ((case r of Inl e \<Rightarrow> Inl e
           | Inr services \<Rightarrow>
               if length services = 0
               then Inr \<lparr>message = ''Shelter assistance is arranged through the official registration process with OPM. You need to report to the OPM Refugee Desk to be assigned a place in a settlement. Would you like their contact information?'',
                         quickReplies = Some [''OPM Contact'', ''Registration Info'', ''Main Menu'']\<rparr>
               else let serviceInfo = join NL (map shelterLine services)
                    in Inr \<lparr>message = ''Shelter assistance options:'' @ NL @ NL @ serviceInfo @ NL @ NL
                                @ ''Note: Most shelter assistance requires official registration with OPM.'',
                              quickReplies = Some [''OPM Contact'', ''Registration Steps'', ''More Info'']\<rparr>),
          [Call_getServicesByCategory ''Shelter''],
          w1))"

definition handleHealthcareIntent ::
  "'w DialogflowService \<Rightarrow> 'w \<Rightarrow> (error + BotResponse) \<times> event list \<times> 'w" where
  "handleHealthcareIntent svc w =
     (let (r1, w1) = getServicesByCategory svc ''Health'' w;
          (r2, w2) = getContactsByType svc ''Hospital'' w1
      in ((case r1 of Inl e \<Rightarrow> Inl e | Inr services \<Rightarrow>
           (case r2 of Inl e \<Rightarrow> Inl e | Inr contacts \<Rightarrow>
              Inr (formatHealthcareResponse services contacts))),
          [Call_getServicesByCategory ''Health'', Call_getContactsByType ''Hospital''],
          w2))"

definition handleEmergencyContactsIntent ::
  "'w DialogflowService \<Rightarrow> 'w \<Rightarrow> (error + BotResponse) \<times> event list \<times> 'w" where
  "handleEmergencyContactsIntent svc w =
     (let (r, w1) = getAllContacts svc w
      in ((case r of Inl e \<Rightarrow> Inl e
           | Inr contacts \<Rightarrow> Inr (fst (formatEmergencyContacts contacts))),
          [Call_getAllContacts],
          w1))"

definition FALLBACK_RESPONSE :: BotResponse where
  \<comment> \<open>the last branch of the keyword rules\<close>
  "FALLBACK_RESPONSE =
     \<lparr>message = ''I'm here to help with registration, food, shelter, healthcare, and emergency contacts for refugees in Mbarara. What specific information do you need?'',
      quickReplies = None\<rparr>"

definition handleMessageWithBuiltInLogic ::
  "'w DialogflowService \<Rightarrow> string \<Rightarrow> 'w \<Rightarrow> (error + BotResponse) \<times> event list \<times> 'w" where
  "handleMessageWithBuiltInLogic svc message' w =
     (let lowerMessage = trim (toLowerCase message')
      in if includes_str lowerMessage ''register'' \<or> includes_str lowerMessage ''registration''
            \<or> includes_str lowerMessage ''opm''
         then handleRegistrationIntent svc w
         else if includes_str lowerMessage ''food'' \<or> includes_str lowerMessage ''hungry''
            \<or> includes_str lowerMessage ''eat''
         then handleFoodIntent svc w
         else if includes_str lowerMessage ''shelter'' \<or> includes_str lowerMessage ''place to stay''
            \<or> includes_str lowerMessage ''sleep''
         then handleShelterIntent svc w
         else if includes_str lowerMessage ''health'' \<or> includes_str lowerMessage ''hospital''
            \<or> includes_str lowerMessage ''doctor'' \<or> includes_str lowerMessage ''sick''
         then handleHealthcareIntent svc w
         else if includes_str lowerMessage ''emergency'' \<or> includes_str lowerMessage ''help''
            \<or> includes_str lowerMessage ''contact''
         then handleEmergencyContactsIntent svc w
         else if includes_str lowerMessage ''hello'' \<or> includes_str lowerMessage ''hi''
            \<or> includes_str lowerMessage ''start''
         then (Inr formatWelcomeResponse, [], w)
         else (Inr FALLBACK_RESPONSE, [], w))"

definition shouldUseCustomLogic :: "string \<Rightarrow> bool" where
  "shouldUseCustomLogic intent =
     (intent \<in> set [FIND_REGISTRATION, FIND_FOOD, FIND_SHELTER, FIND_HEALTHCARE, FIND_EMERGENCY_CONTACTS])"

definition CUSTOM_DEFAULT_RESPONSE :: BotResponse where
  \<comment> \<open>the \<open>default\<close> case of the switch in \<open>handleIntentWithCustomLogic\<close>\<close>
  "CUSTOM_DEFAULT_RESPONSE =
     \<lparr>message = ''I can help you with registration, food, shelter, healthcare, and emergency contacts. What specific information do you need?'',
      quickReplies = None\<rparr>"

definition handleIntentWithCustomLogic ::
  "'w DialogflowService \<Rightarrow> string \<Rightarrow> 'w \<Rightarrow> (error + BotResponse) \<times> event list \<times> 'w" where
  "handleIntentWithCustomLogic svc intent w =
     (let (r, evs, w1) =
            (if intent = FIND_REGISTRATION then handleRegistrationIntent svc w
             else if intent = FIND_FOOD then handleFoodIntent svc w
             else if intent = FIND_SHELTER then handleShelterIntent svc w
             else if intent = FIND_HEALTHCARE then handleHealthcareIntent svc w
             else if intent = FIND_EMERGENCY_CONTACTS then handleEmergencyContactsIntent svc w
             else (Inr CUSTOM_DEFAULT_RESPONSE, [], w))
      in case r of
           Inr response \<Rightarrow> (Inr response, evs, w1)
         | Inl e \<Rightarrow>
             (Inr formatErrorResponse, evs @ [Log ''error'' ''Error in custom intent handling''], w1))"

definition projectAgentSessionPath :: "string \<Rightarrow> string \<Rightarrow> string" where
  "projectAgentSessionPath project session = ''projects/'' @ project @ ''/agent/sessions/'' @ session"

definition handleMessageWithDialogflow ::
  "'w DialogflowService \<Rightarrow> string \<Rightarrow> string \<Rightarrow> 'w \<Rightarrow> (error + BotResponse) \<times> event list \<times> 'w" where
  "handleMessageWithDialogflow svc message' sessionId w =
     (case sessionsClient svc of
        None \<Rightarrow> (Inl (Error ''Dialogflow client not initialized''), [], w)
      | Some detectIntent \<Rightarrow>
          if \<not> truthy (projectId svc) then (Inl (Error ''Dialogflow client not initialized''), [], w)
          else
            let sessionPath = projectAgentSessionPath (js_str (projectId svc)) sessionId;
                evs = [Log ''debug'' ''Sending request to Dialogflow'', Call_detectIntent message' sessionId];
                (answer, w1) = detectIntent sessionPath message' w
            in case answer of
                 Inl e \<Rightarrow> (Inl e, evs, w1)
               | Inr None \<Rightarrow> (Inl (Error ''No response from Dialogflow''), evs, w1)
               | Inr (Some queryResult) \<Rightarrow>
                   let evs1 = evs @ [Log ''debug'' ''Received Dialogflow response'']
                   in if truthy (intent_displayName queryResult)
                         \<and> shouldUseCustomLogic (js_str (intent_displayName queryResult))
                      then let (r, evs2, w2) =
                                 handleIntentWithCustomLogic svc (js_str (intent_displayName queryResult)) w1
                           in (r, evs1 @ evs2, w2)
                      else (Inr \<lparr>message =
                                   (if truthy (fulfillmentText queryResult)
                                    then js_str (fulfillmentText queryResult)
                                    else ''I apologize, but I could not process your request.''),
                                 quickReplies = None\<rparr>, evs1, w1))"

definition getResponse ::
  "'w DialogflowService \<Rightarrow> string \<Rightarrow> string \<Rightarrow> 'w \<Rightarrow> (error + BotResponse) \<times> event list \<times> 'w" where
  \<comment> \<open>the \<open>catch\<close> runs the keyword rules afresh, in the state the failed attempt left\<close>
  "getResponse svc message' sessionId w =
     (let (r, evs, w1) =
            (if \<not> isEnabled svc then handleMessageWithBuiltInLogic svc message' w
             else handleMessageWithDialogflow svc message' sessionId w)
      in case r of
           Inr response \<Rightarrow> (Inr response, evs, w1)
         | Inl e \<Rightarrow>
             let (r2, evs2, w2) = handleMessageWithBuiltInLogic svc message' w1
             in (r2, evs @ [Log ''error'' ''Error in getResponse''] @ evs2, w2))"

text \<open>
  The constructor: the remote path is on only if the configuration enables it, names a
  project, and the client could be created.
\<close>

definition DialogflowService_new ::
  "bool \<Rightarrow> string \<Rightarrow> (error + (string \<Rightarrow> string \<Rightarrow> 'w \<Rightarrow> (error + QueryResult option) \<times> 'w))
     \<Rightarrow> (string \<Rightarrow> 'w \<Rightarrow> (error + Service list) \<times> 'w)
     \<Rightarrow> (string \<Rightarrow> 'w \<Rightarrow> (error + Contact list) \<times> 'w)
     \<Rightarrow> ('w \<Rightarrow> (error + Contact list) \<times> 'w)
     \<Rightarrow> ('w \<Rightarrow> (error + RegistrationStep list) \<times> 'w)
     \<Rightarrow> ('w \<Rightarrow> (error + RequiredDocument list) \<times> 'w) \<Rightarrow> 'w DialogflowService" where
  "DialogflowService_new dialogflowEnabled dialogflowProjectId newSessionsClient
       byCategory byType allContacts allSteps requiredDocuments =
     (let off = \<lparr>sessionsClient = None, projectId = None, isEnabled = False,
                  getServicesByCategory = byCategory, getContactsByType = byType,
                  getAllContacts = allContacts, getAllSteps = allSteps,
                  getRequiredDocuments = requiredDocuments\<rparr>
      in if dialogflowEnabled \<and> dialogflowProjectId \<noteq> []
         then (case newSessionsClient of
                 Inr client \<Rightarrow> off\<lparr>sessionsClient := Some client,
                                     projectId := Some dialogflowProjectId, isEnabled := True\<rparr>
               | Inl e \<Rightarrow> off)
         else off)"

section \<open>The pipeline: \<open>MessageService.processMessage\<close>\<close>

definition EMPTY_MESSAGE_RESPONSE :: BotResponse where
  "EMPTY_MESSAGE_RESPONSE =
     \<lparr>message = ''Please send a message with your question. I can help with registration, food, shelter, healthcare, and emergency contacts.'',
      quickReplies = None\<rparr>"

definition TOO_LONG_RESPONSE :: BotResponse where
  "TOO_LONG_RESPONSE =
     \<lparr>message = ''Your message is too long. Please keep your questions brief and focused on one topic at a time.'',
      quickReplies = None\<rparr>"

definition TRY_AGAIN_RESPONSE :: BotResponse where
  "TRY_AGAIN_RESPONSE =
     \<lparr>message = ''Sorry, I encountered an error while processing your message. Please try again in a moment.'',
      quickReplies = None\<rparr>"

definition processMessage ::
  "'w DialogflowService \<Rightarrow> string \<Rightarrow> string \<Rightarrow> 'w \<Rightarrow> (error + BotResponse) \<times> event list \<times> 'w" where
  "processMessage dialogflowService userMessage userPhone w =
     (let evs0 = [Log ''info'' ''Processing user message'']
      in if userMessage = [] \<or> length (trim userMessage) = 0
         then (Inr EMPTY_MESSAGE_RESPONSE, evs0, w)
         else if length userMessage > 500
         then (Inr TOO_LONG_RESPONSE, evs0, w)
         else
           let sessionId = generateSessionId userPhone;
               (r, evs, w1) = getResponse dialogflowService userMessage sessionId w
           in case r of
                Inr response \<Rightarrow>
                  (Inr response, evs0 @ evs @ [Log ''info'' ''Message processed successfully''], w1)
              | Inl e \<Rightarrow>
                  (Inr TRY_AGAIN_RESPONSE, evs0 @ evs @ [Log ''error'' ''Message processing failed''], w1))"

text \<open>
  The sender identity that reaches \<open>processMessage\<close> has passed the webhook validators:
  \<open>/^whatsapp:\+\d{1,15}$/\<close>.
\<close>

definition isDigit :: "char \<Rightarrow> bool" where
  "isDigit c = (48 \<le> (of_char c :: nat) \<and> (of_char c :: nat) \<le> 57)"

definition phoneRegex_test :: "string \<Rightarrow> bool" where
  "phoneRegex_test s =
     (prefix ''whatsapp:+'' s
      \<and> 1 \<le> length (drop 10 s) \<and> length (drop 10 s) \<le> 15 \<and> list_all isDigit (drop 10 s))"

section \<open>Webhook signature: \<open>TwilioService.validateWebhookSignature\<close>\<close>

text \<open>
  \<open>EnvironmentConfig\<close> holds the account identifier and the shared secret, each the empty
  string when unset. The provider library's \<open>validateRequest\<close> (which recomputes the
  signature of a request from the secret, the URL and the body, and compares it with the
  header) is not part of this code base: it is a parameter, a function that gives its
  verdict or throws.
\<close>

record EnvironmentConfig =
  twilioAccountSid :: string
  twilioAuthToken :: string

record TwilioService =
  isConfigured :: bool

definition TwilioService_new :: "EnvironmentConfig \<Rightarrow> TwilioService" where
  "TwilioService_new cfg = \<lparr>isConfigured = (twilioAccountSid cfg \<noteq> [] \<and> twilioAuthToken cfg \<noteq> [])\<rparr>"

definition validateWebhookSignature ::
  "TwilioService \<Rightarrow> EnvironmentConfig
     \<Rightarrow> (string \<Rightarrow> string \<Rightarrow> string \<Rightarrow> (string \<times> string) list \<Rightarrow> error + bool)
     \<Rightarrow> string \<Rightarrow> (string \<times> string) list \<Rightarrow> string option \<Rightarrow> (error + bool) \<times> event list" where
  "validateWebhookSignature this cfg validateRequest url body signature =
     (if \<not> isConfigured this
      then (Inr False, [Log ''warn'' ''Twilio not configured - skipping webhook signature validation''])
      else if \<not> truthy signature
      then (Inr False, [Log ''warn'' ''Missing Twilio signature header''])
      else
        (case validateRequest (twilioAuthToken cfg) (js_str signature) url body of
           Inr isValid \<Rightarrow>
             (Inr isValid,
              Call_validateRequest # (if \<not> isValid then [Log ''warn'' ''Invalid Twilio webhook signature''] else []))
         | Inl e \<Rightarrow>
             (Inr False, [Call_validateRequest, Log ''error'' ''Error validating Twilio webhook signature''])))"

section \<open>The intent taken by the keyword rules\<close>

datatype Intent = Registration | Food | Shelter | Healthcare | EmergencyContacts | Welcome | Fallback

definition builtInIntent :: "string \<Rightarrow> Intent" where
  \<comment> \<open>the tests of \<open>handleMessageWithBuiltInLogic\<close>, each branch named by the intent it serves\<close>
  "builtInIntent message' =
     (let lowerMessage = trim (toLowerCase message')
      in if includes_str lowerMessage ''register'' \<or> includes_str lowerMessage ''registration''
            \<or> includes_str lowerMessage ''opm''
         then Registration
         else if includes_str lowerMessage ''food'' \<or> includes_str lowerMessage ''hungry''
            \<or> includes_str lowerMessage ''eat''
         then Food
         else if includes_str lowerMessage ''shelter'' \<or> includes_str lowerMessage ''place to stay''
            \<or> includes_str lowerMessage ''sleep''
         then Shelter
         else if includes_str lowerMessage ''health'' \<or> includes_str lowerMessage ''hospital''
            \<or> includes_str lowerMessage ''doctor'' \<or> includes_str lowerMessage ''sick''
         then Healthcare
         else if includes_str lowerMessage ''emergency'' \<or> includes_str lowerMessage ''help''
            \<or> includes_str lowerMessage ''contact''
         then EmergencyContacts
         else if includes_str lowerMessage ''hello'' \<or> includes_str lowerMessage ''hi''
            \<or> includes_str lowerMessage ''start''
         then Welcome
         else Fallback)"

definition handleIntent ::
  "'w DialogflowService \<Rightarrow> Intent \<Rightarrow> 'w \<Rightarrow> (error + BotResponse) \<times> event list \<times> 'w" where
  \<comment> \<open>what the branch of each intent does\<close>
  "handleIntent svc i w =
     (case i of
        Registration \<Rightarrow> handleRegistrationIntent svc w
      | Food \<Rightarrow> handleFoodIntent svc w
      | Shelter \<Rightarrow> handleShelterIntent svc w
      | Healthcare \<Rightarrow> handleHealthcareIntent svc w
      | EmergencyContacts \<Rightarrow> handleEmergencyContactsIntent svc w
      | Welcome \<Rightarrow> (Inr formatWelcomeResponse, [], w)
      | Fallback \<Rightarrow> (Inr FALLBACK_RESPONSE, [], w))"

text \<open>
  The rule as the specification words it: an ordered list of keyword groups, the first
  group with a keyword in the text wins, and no group means \<open>Fallback\<close>.
\<close>

definition keywordGroups :: "(Intent \<times> string list) list" where
  "keywordGroups =
     [(Registration, [''register'', ''registration'', ''opm'']),
      (Food, [''food'', ''hungry'', ''eat'']),
      (Shelter, [''shelter'', ''place to stay'', ''sleep'']),
      (Healthcare, [''health'', ''hospital'', ''doctor'', ''sick'']),
      (EmergencyContacts, [''emergency'', ''help'', ''contact'']),
      (Welcome, [''hello'', ''hi'', ''start''])]"

fun firstMatchingGroup :: "(Intent \<times> string list) list \<Rightarrow> string \<Rightarrow> Intent" where
  "firstMatchingGroup [] text' = Fallback"
| "firstMatchingGroup ((i, keywords) # groups) text' =
     (if list_ex (includes_str text') keywords then i else firstMatchingGroup groups text')"

section \<open>Example inputs\<close>

text \<open>Concrete rows and services, used where a property is shown at an input.\<close>

definition example_contact :: "int \<Rightarrow> string \<Rightarrow> bool \<Rightarrow> Contact" where
  "example_contact n name urgent =
     \<lparr>con_id = n, con_entity = name, con_phone = None, con_email = None, con_description = None,
      con_type = ''General'', con_is_urgent = urgent, con_notes = None,
      con_created_at = ''2025-01-01T00:00:00Z'', con_updated_at = ''2025-01-01T00:00:00Z''\<rparr>"

definition example_step :: "int \<Rightarrow> string \<Rightarrow> RegistrationStep" where
  "example_step n name =
     \<lparr>step_id = n, step_step_number = n, step_title = name, step_description = ''see the desk'',
      step_requirements = None, step_estimated_duration = None,
      step_created_at = ''2025-01-01T00:00:00Z'', step_updated_at = ''2025-01-01T00:00:00Z''\<rparr>"

definition example_health_service :: "string \<Rightarrow> Service" where
  "example_health_service org =
     \<lparr>svc_id = 7, svc_category = ''Health'', svc_organization = org,
      svc_services = ''Nutrition screening'', svc_contact_phone = None, svc_contact_email = None,
      svc_location = Some ''Nakivale'', svc_notes = None,
      svc_created_at = ''2025-01-01T00:00:00Z'', svc_updated_at = ''2025-01-01T00:00:00Z''\<rparr>"

definition example_service_database_down :: "nat DialogflowService" where
  \<comment> \<open>remote path off; every repository query throws, every time. The state counts the queries.\<close>
  "example_service_database_down =
     \<lparr>sessionsClient = None, projectId = None, isEnabled = False,
      getServicesByCategory = (\<lambda>category n. (Inl (Error ''Database error: connection refused''), Suc n)),
      getContactsByType = (\<lambda>type' n. (Inl (Error ''Database error: connection refused''), Suc n)),
      getAllContacts = (\<lambda>n. (Inl (Error ''Database error: connection refused''), Suc n)),
      getAllSteps = (\<lambda>n. (Inl (Error ''Database error: connection refused''), Suc n)),
      getRequiredDocuments = (\<lambda>n. (Inl (Error ''Database error: connection refused''), Suc n))\<rparr>"

definition example_service_remote_down :: "nat DialogflowService" where
  \<comment> \<open>remote path on, its client throws on every request; the repositories hold no rows\<close>
  "example_service_remote_down =
     \<lparr>sessionsClient = Some (\<lambda>sessionPath text' n. (Inl (Error ''14 UNAVAILABLE''), n)),
      projectId = Some ''refugee-bot'', isEnabled = True,
      getServicesByCategory = (\<lambda>category n. (Inr [], Suc n)),
      getContactsByType = (\<lambda>type' n. (Inr [], Suc n)),
      getAllContacts = (\<lambda>n. (Inr [], Suc n)),
      getAllSteps = (\<lambda>n. (Inr [], Suc n)),
      getRequiredDocuments = (\<lambda>n. (Inr [], Suc n))\<rparr>"

definition example_service_flaky :: "nat DialogflowService" where
  \<comment> \<open>remote path on, its client throws on every request; the first repository query of all
      throws (a dropped connection), every later one succeeds. The state counts the queries.\<close>
  "example_service_flaky =
     \<lparr>sessionsClient = Some (\<lambda>sessionPath text' n. (Inl (Error ''14 UNAVAILABLE''), n)),
      projectId = Some ''refugee-bot'', isEnabled = True,
      getServicesByCategory =
        (\<lambda>category n. (if n = 0 then Inl (Error ''Database error: connection reset'') else Inr [], Suc n)),
      getContactsByType =
        (\<lambda>type' n. (if n = 0 then Inl (Error ''Database error: connection reset'') else Inr [], Suc n)),
      getAllContacts =
        (\<lambda>n. (if n = 0 then Inl (Error ''Database error: connection reset'') else Inr [], Suc n)),
      getAllSteps =
        (\<lambda>n. (if n = 0 then Inl (Error ''Database error: connection reset'') else Inr [], Suc n)),
      getRequiredDocuments =
        (\<lambda>n. (if n = 0 then Inl (Error ''Database error: connection reset'') else Inr [], Suc n))\<rparr>"

definition example_validateRequest ::
  "string \<Rightarrow> string \<Rightarrow> string \<Rightarrow> (string \<times> string) list \<Rightarrow> error + bool" where
  \<comment> \<open>a stand-in for the provider's check: the header must be the reversed text of secret, URL and body\<close>
  "example_validateRequest authToken signature url body =
     Inr (signature = rev (authToken @ url @ concat (map (\<lambda>(k, v). k @ v) body)))"

section \<open>Properties of the session key\<close>

lemmas session_eval = generateSessionId_def Buffer_from_def utf8_unit_def b64_def base64_alphabet_def

lemma generateSessionId_prefix: "prefix ''user-'' (generateSessionId x)"
  by (simp add: generateSessionId_def)

lemma phoneRegex_test_not_user: "phoneRegex_test x \<Longrightarrow> \<not> prefix ''user-'' x"
  by (auto simp: phoneRegex_test_def prefix_def)

text \<open>
  C10: the session key is a function of the sender identity alone (equal identities give
  equal keys, whatever else has happened), and it differs from the identity: for every
  sender identity the validators let through, and more generally for every text that does
  not itself begin with \<open>user-\<close>.
\<close>

theorem generateSessionId_deterministic_not_identity:
  "(x = y \<longrightarrow> generateSessionId x = generateSessionId y)
   \<and> (phoneRegex_test x \<longrightarrow> generateSessionId x \<noteq> x)
   \<and> (\<not> prefix ''user-'' x \<longrightarrow> generateSessionId x \<noteq> x)"
  using generateSessionId_prefix [of x] phoneRegex_test_not_user [of x] by auto

theorem generateSessionId_deterministic_not_identity_witness:
  "phoneRegex_test ''whatsapp:+256700000000''
   \<and> \<not> prefix ''user-'' ''whatsapp:+256700000000''
   \<and> generateSessionId ''whatsapp:+256700000000'' = generateSessionId ''whatsapp:+256700000000''
   \<and> generateSessionId ''whatsapp:+256700000000'' \<noteq> ''whatsapp:+256700000000''"
proof -
  have h1: "phoneRegex_test ''whatsapp:+256700000000''"
    by (simp add: phoneRegex_test_def isDigit_def)
  have h2: "\<not> prefix ''user-'' ''whatsapp:+256700000000''" by simp
  from generateSessionId_deterministic_not_identity
         [of "''whatsapp:+256700000000''" "''whatsapp:+256700000000''"] h1 h2
  show ?thesis by blast
qed

text \<open>
  Outside the sender identities there is exactly one text that is its own session key.
\<close>

lemma generateSessionId_fixed_point_unique:
  assumes "generateSessionId x = x"
  shows "x = ''user-dXNlci1kWE5sY2kx''"
proof -
  obtain t where x: "x = ''user-'' @ t" and t: "t = take 16 (toString_base64 (Buffer_from x))"
    using assms unfolding generateSessionId_def by metis
  have "t = ''dXNl'' @ take 12 (toString_base64 (Buffer_from (''r-'' @ t)))"
    using t unfolding x by (simp add: session_eval)
  then obtain t2 where t2: "t = ''dXNl'' @ t2"
    and t2': "t2 = take 12 (toString_base64 (Buffer_from (''r-'' @ t)))" by blast
  have "t2 = ''ci1k'' @ take 8 (toString_base64 (Buffer_from (''XNl'' @ t2)))"
    using t2' unfolding t2 by (simp add: session_eval)
  then obtain t3 where t3: "t2 = ''ci1k'' @ t3"
    and t3': "t3 = take 8 (toString_base64 (Buffer_from (''XNl'' @ t2)))" by blast
  have "t3 = ''WE5sY2kx''"
    using t3' unfolding t3 by (simp add: session_eval)
  then show ?thesis by (simp add: x t2 t3)
qed

lemma generateSessionId_fixed_point:
  "generateSessionId ''user-dXNlci1kWE5sY2kx'' = ''user-dXNlci1kWE5sY2kx''"
  by (simp add: session_eval)

section \<open>Properties of the keyword rules\<close>

lemma includes_str_sublist: "includes_str s k = sublist k s"
  by (induction s) (simp_all add: sublist_Cons_right)

lemma sublist_dropWhile_keep:
  assumes "k \<noteq> []" "\<not> P (hd k)" "sublist k s"
  shows "sublist k (dropWhile P s)"
proof -
  from assms(3) obtain a b where s: "s = a @ k @ b" by (auto simp: sublist_def)
  have "\<exists>a'. dropWhile P (a @ k @ b) = a' @ k @ b"
  proof (induction a)
    case Nil
    from assms(1,2) have "dropWhile P (k @ b) = k @ b" by (cases k) simp_all
    then show ?case by (intro exI [of _ "[]"]) simp
  next
    case (Cons x a)
    then obtain a' where "dropWhile P (a @ k @ b) = a' @ k @ b" by blast
    then show ?case
      by (cases "P x") (auto intro: exI [of _ "x # a"])
  qed
  then show ?thesis unfolding s by (auto simp: sublist_def)
qed

lemma includes_str_trim:
  assumes "k \<noteq> []" "\<not> isWhiteSpace (hd k)" "\<not> isWhiteSpace (last k)" "includes_str s k"
  shows "includes_str (trim s) k"
proof -
  have 1: "sublist k (dropWhile isWhiteSpace s)"
    using assms by (simp add: includes_str_sublist sublist_dropWhile_keep)
  have "sublist (rev k) (dropWhile isWhiteSpace (rev (dropWhile isWhiteSpace s)))"
    using assms(1,3) 1 by (intro sublist_dropWhile_keep) (simp_all add: hd_rev)
  then show ?thesis
    unfolding trim_def includes_str_sublist by (simp add: sublist_rev_left)
qed

lemma includes_str_trim_D: "includes_str (trim s) k \<Longrightarrow> includes_str s k"
  unfolding trim_def includes_str_sublist sublist_rev_right
  by (meson sublist_dropWhile sublist_order.order_trans sublist_rev_left)

lemma includes_str_toLowerCase:
  assumes "includes_str s k" "map toLowerChar k = k"
  shows "includes_str (toLowerCase s) k"
proof -
  from assms(1) obtain a b where "s = a @ k @ b"
    by (auto simp: includes_str_sublist sublist_def)
  then have "toLowerCase s = map toLowerChar a @ k @ map toLowerChar b"
    using assms(2) by (simp add: toLowerCase_def)
  then show ?thesis by (simp add: includes_str_sublist)
qed

lemma includes_str_lowerMessage:
  assumes "includes_str m k" "map toLowerChar k = k"
    and "k \<noteq> []" "\<not> isWhiteSpace (hd k)" "\<not> isWhiteSpace (last k)"
  shows "includes_str (trim (toLowerCase m)) k"
  using assms by (intro includes_str_trim includes_str_toLowerCase)

lemma builtInIntent_firstMatchingGroup:
  "builtInIntent m = firstMatchingGroup keywordGroups (trim (toLowerCase m))"
  by (simp add: builtInIntent_def keywordGroups_def Let_def)

lemma handleMessageWithBuiltInLogic_handleIntent:
  "handleMessageWithBuiltInLogic svc m w = handleIntent svc (builtInIntent m) w"
  by (simp add: handleMessageWithBuiltInLogic_def builtInIntent_def handleIntent_def Let_def)

lemmas string_eval = trim_def toLowerCase_def toLowerChar_def isWhiteSpace_def

text \<open>
  C5, as stated, fails: a text with both \<open>food\<close> and \<open>emergency\<close> that also holds a
  keyword of the registration group, which is tested first, is served as Registration.
\<close>

theorem builtInIntent_food_emergency_counterexample:
  "includes_str ''register for food emergency'' ''food''
   \<and> includes_str ''register for food emergency'' ''emergency''
   \<and> builtInIntent ''register for food emergency'' \<noteq> Food"
  by (simp add: builtInIntent_def Let_def string_eval)

text \<open>
  C5, amended: the keyword rules are the ordered list registration, food, shelter,
  healthcare, emergency contacts, welcome, with Fallback when no group matches; the first
  group with a keyword in the lower-cased, trimmed text decides the branch taken. A text
  that contains both \<open>food\<close> and \<open>emergency\<close>, and in no letter case any of \<open>register\<close>,
  \<open>registration\<close>, \<open>opm\<close>, resolves to Food.
\<close>

theorem builtInIntent_first_group_wins:
  "builtInIntent m = firstMatchingGroup keywordGroups (trim (toLowerCase m))
   \<and> (\<forall>w. handleMessageWithBuiltInLogic svc m w = handleIntent svc (builtInIntent m) w)
   \<and> (includes_str m ''food'' \<and> includes_str m ''emergency''
        \<and> \<not> includes_str (toLowerCase m) ''register''
        \<and> \<not> includes_str (toLowerCase m) ''registration''
        \<and> \<not> includes_str (toLowerCase m) ''opm''
      \<longrightarrow> builtInIntent m = Food)"
proof (intro conjI impI allI)
  show "builtInIntent m = firstMatchingGroup keywordGroups (trim (toLowerCase m))"
    by (rule builtInIntent_firstMatchingGroup)
  show "handleMessageWithBuiltInLogic svc m w = handleIntent svc (builtInIntent m) w" for w
    by (rule handleMessageWithBuiltInLogic_handleIntent)
next
  assume h: "includes_str m ''food'' \<and> includes_str m ''emergency''
        \<and> \<not> includes_str (toLowerCase m) ''register''
        \<and> \<not> includes_str (toLowerCase m) ''registration''
        \<and> \<not> includes_str (toLowerCase m) ''opm''"
  then have food: "includes_str (trim (toLowerCase m)) ''food''"
    by (intro includes_str_lowerMessage) (simp_all add: toLowerChar_def isWhiteSpace_def)
  from h have "\<not> includes_str (trim (toLowerCase m)) ''register''"
    and "\<not> includes_str (trim (toLowerCase m)) ''registration''"
    and "\<not> includes_str (trim (toLowerCase m)) ''opm''"
    by (auto dest: includes_str_trim_D)
  with food show "builtInIntent m = Food"
    by (simp add: builtInIntent_def Let_def)
qed

theorem builtInIntent_first_group_wins_witness:
  "(includes_str ''No food here, this is an emergency'' ''food''
    \<and> includes_str ''No food here, this is an emergency'' ''emergency''
    \<and> \<not> includes_str (toLowerCase ''No food here, this is an emergency'') ''register''
    \<and> \<not> includes_str (toLowerCase ''No food here, this is an emergency'') ''registration''
    \<and> \<not> includes_str (toLowerCase ''No food here, this is an emergency'') ''opm'')
   \<and> builtInIntent ''No food here, this is an emergency'' = Food
   \<and> handleMessageWithBuiltInLogic example_service_remote_down ''No food here, this is an emergency'' 0
       = handleFoodIntent example_service_remote_down 0"
proof -
  have h: "includes_str ''No food here, this is an emergency'' ''food''
    \<and> includes_str ''No food here, this is an emergency'' ''emergency''
    \<and> \<not> includes_str (toLowerCase ''No food here, this is an emergency'') ''register''
    \<and> \<not> includes_str (toLowerCase ''No food here, this is an emergency'') ''registration''
    \<and> \<not> includes_str (toLowerCase ''No food here, this is an emergency'') ''opm''"
    by (simp add: string_eval)
  note w = builtInIntent_first_group_wins
             [of "''No food here, this is an emergency''" example_service_remote_down]
  from w h have "builtInIntent ''No food here, this is an emergency'' = Food" by blast
  with w h show ?thesis by (simp add: handleIntent_def)
qed

section \<open>Properties of the composed responses\<close>

text \<open>
  C4, as stated, fails: a list without any service of category Food, but with a service
  whose organization name contains \<open>WFP\<close>, is listed instead of answered by the guidance
  text.
\<close>

theorem formatFoodResponse_no_food_category_counterexample:
  "svc_category (example_health_service ''WFP Clinic'') \<noteq> ''Food''
   \<and> message (formatFoodResponse [example_health_service ''WFP Clinic'']) \<noteq> FOOD_GUIDANCE_MESSAGE"
  by (simp add: formatFoodResponse_def FOOD_GUIDANCE_MESSAGE_def example_health_service_def
      foodLine_def truthy_def NL_def BULLET_def)

text \<open>
  C4, amended: if no service in the list has category Food and none has an organization
  name containing \<open>WFP\<close>, the Food response is the static guidance text with the Food quick
  replies, whatever else the list holds.
\<close>

theorem formatFoodResponse_guidance:
  assumes "\<forall>s \<in> set services. svc_category s \<noteq> ''Food'' \<and> \<not> includes_str (svc_organization s) ''WFP''"
  shows "formatFoodResponse services
         = \<lparr>message = FOOD_GUIDANCE_MESSAGE, quickReplies = Some QUICK_REPLIES_FOOD\<rparr>"
proof -
  have "filter (\<lambda>service. svc_category service = ''Food''
                  \<or> includes_str (svc_organization service) ''WFP'') services = []"
    using assms by (simp add: filter_empty_conv)
  then show ?thesis by (simp add: formatFoodResponse_def)
qed

theorem formatFoodResponse_guidance_witness:
  "svc_category (example_health_service ''Medical Teams International'') \<noteq> ''Food''
   \<and> \<not> includes_str (svc_organization (example_health_service ''Medical Teams International'')) ''WFP''
   \<and> formatFoodResponse [example_health_service ''Medical Teams International'']
       = \<lparr>message = FOOD_GUIDANCE_MESSAGE, quickReplies = Some QUICK_REPLIES_FOOD\<rparr>"
proof -
  have h: "svc_category (example_health_service ''Medical Teams International'') \<noteq> ''Food''
    \<and> \<not> includes_str (svc_organization (example_health_service ''Medical Teams International'')) ''WFP''"
    by (simp add: example_health_service_def)
  then have "\<forall>s \<in> set [example_health_service ''Medical Teams International''].
      svc_category s \<noteq> ''Food'' \<and> \<not> includes_str (svc_organization s) ''WFP''"
    by simp
  from formatFoodResponse_guidance [OF this] h show ?thesis by blast
qed

lemma insort_cmp_append:
  assumes "\<forall>a \<in> set as. \<not> cmp x a \<le> 0" "bs = [] \<or> cmp x (hd bs) \<le> 0"
  shows "insort_cmp cmp x (as @ bs) = as @ x # bs"
  using assms by (induction as) (cases bs; auto)+

text \<open>
  The comparator of \<open>formatEmergencyContacts\<close> puts flagged contacts first and keeps the
  given order among the flagged and among the rest.
\<close>

lemma sort_cmp_urgent_first:
  fixes xs :: "Contact list"
  shows "sort_cmp (\<lambda>a b. (if con_is_urgent b then 1 else 0) - (if con_is_urgent a then 1 else (0::int))) xs
   = filter con_is_urgent xs @ filter (\<lambda>c. \<not> con_is_urgent c) xs"
proof (induction xs)
  case Nil
  then show ?case by (simp add: sort_cmp_def)
next
  case (Cons x xs)
  let ?cmp = "\<lambda>(a::Contact) (b::Contact).
    (if con_is_urgent b then 1 else 0) - (if con_is_urgent a then 1 else (0::int))"
  let ?flagged = "filter con_is_urgent xs"
  let ?rest = "filter (\<lambda>c. \<not> con_is_urgent c) xs"
  have step: "sort_cmp ?cmp (x # xs) = insort_cmp ?cmp x (?flagged @ ?rest)"
    using Cons by (simp add: sort_cmp_def)
  show ?case
  proof (cases "con_is_urgent x")
    case True
    have "insort_cmp ?cmp x ([] @ (?flagged @ ?rest)) = [] @ x # (?flagged @ ?rest)"
      using True by (intro insort_cmp_append) auto
    then show ?thesis using True step by simp
  next
    case False
    have "insort_cmp ?cmp x (?flagged @ ?rest) = ?flagged @ x # ?rest"
    proof (rule insort_cmp_append)
      show "\<forall>a\<in>set ?flagged. \<not> ?cmp x a \<le> 0" using False by auto
      show "?rest = [] \<or> ?cmp x (hd ?rest) \<le> 0"
      proof (cases ?rest)
        case Nil
        then show ?thesis by simp
      next
        case (Cons y ys)
        then have "y \<in> set ?rest" by simp
        then have "\<not> con_is_urgent y" by simp
        then show ?thesis using Cons False by simp
      qed
    qed
    then show ?thesis using False step by simp
  qed
qed

text \<open>
  C8: the EmergencyContacts message is exactly the title, then (if there is any) the block
  headed URGENT CONTACTS with one line for each contact that is flagged urgent or has type
  Emergency, the flagged ones first, then (if there is any) the block headed OTHER
  IMPORTANT CONTACTS with one line for each other contact, in the given order. A line is
  the bullet, the entity name, a colon, the phone or else the email, and the description
  if there is one. So every urgent or Emergency contact is rendered before every other
  contact; for the contacts A (urgent) and B (not urgent) the message is the title, the
  urgent block with the line of A, and the other block with the line of B.
\<close>

theorem formatEmergencyContacts_urgent_block_first:
  "message (fst (formatEmergencyContacts contacts)) =
     (let urgent = filter con_is_urgent contacts
                   @ filter (\<lambda>c. \<not> con_is_urgent c \<and> con_type c = ''Emergency'') contacts;
          others = filter (\<lambda>c. \<not> con_is_urgent c \<and> con_type c \<noteq> ''Emergency'') contacts
      in SIREN @ '' **Emergency & Important Contacts**'' @ NL @ NL
         @ (if urgent = [] then []
            else ''**URGENT CONTACTS:**'' @ NL @ join NL (map contactLine urgent))
         @ (if others = [] then []
            else NL @ NL @ ''**OTHER IMPORTANT CONTACTS:**'' @ NL @ join NL (map contactLine others)))
   \<and> contactLine c =
       BULLET @ '' '' @ con_entity c @ '': '' @ js_str (js_or (con_phone c) (con_email c))
       @ (if truthy (con_description c) then '' - '' @ js_str (con_description c) else [])"
proof -
  define cmp where "cmp = (\<lambda>(a::Contact) (b::Contact).
    (if con_is_urgent b then 1 else 0) - (if con_is_urgent a then 1 else (0::int)))"
  define us where "us = sort_cmp cmp (filter isUrgentContact contacts)"
  define gs where "gs = filter isGeneralContact contacts"
  have u1: "filter con_is_urgent (filter isUrgentContact contacts) = filter con_is_urgent contacts"
    by (induction contacts) (auto simp: isUrgentContact_def)
  have u2: "filter (\<lambda>c. \<not> con_is_urgent c) (filter isUrgentContact contacts)
            = filter (\<lambda>c. \<not> con_is_urgent c \<and> con_type c = ''Emergency'') contacts"
    by (induction contacts) (auto simp: isUrgentContact_def)
  have us: "us = filter con_is_urgent contacts
                 @ filter (\<lambda>c. \<not> con_is_urgent c \<and> con_type c = ''Emergency'') contacts"
    unfolding us_def cmp_def sort_cmp_urgent_first u1 u2 ..
  have gs: "gs = filter (\<lambda>c. \<not> con_is_urgent c \<and> con_type c \<noteq> ''Emergency'') contacts"
    unfolding gs_def by (rule filter_cong) (auto simp: isGeneralContact_def)
  have "message (fst (formatEmergencyContacts contacts)) =
          SIREN @ '' **Emergency & Important Contacts**'' @ NL @ NL
          @ (if us = [] then [] else ''**URGENT CONTACTS:**'' @ NL @ join NL (map contactLine us))
          @ (if gs = [] then []
             else NL @ NL @ ''**OTHER IMPORTANT CONTACTS:**'' @ NL @ join NL (map contactLine gs))"
    by (simp add: formatEmergencyContacts_def Array_filter_def Array_sort_def Let_def
        us_def gs_def cmp_def)
  then show ?thesis
    unfolding us gs by (simp add: Let_def contactLine_def)
qed

theorem formatEmergencyContacts_urgent_block_first_witness:
  "message (fst (formatEmergencyContacts [example_contact 1 ''A'' True, example_contact 2 ''B'' False]))
   = SIREN @ '' **Emergency & Important Contacts**'' @ NL @ NL
     @ ''**URGENT CONTACTS:**'' @ NL @ BULLET @ '' A: null''
     @ NL @ NL @ ''**OTHER IMPORTANT CONTACTS:**'' @ NL @ BULLET @ '' B: null''"
  using formatEmergencyContacts_urgent_block_first
          [of "[example_contact 1 ''A'' True, example_contact 2 ''B'' False]"
              "example_contact 1 ''A'' True"]
  by (simp add: example_contact_def contactLine_def js_or_def js_str_def truthy_def)

text \<open>Given in the other order, the two contacts are rendered the same way: A first.\<close>

lemma formatEmergencyContacts_example_other_order:
  "message (fst (formatEmergencyContacts [example_contact 2 ''B'' False, example_contact 1 ''A'' True]))
   = SIREN @ '' **Emergency & Important Contacts**'' @ NL @ NL
     @ ''**URGENT CONTACTS:**'' @ NL @ BULLET @ '' A: null''
     @ NL @ NL @ ''**OTHER IMPORTANT CONTACTS:**'' @ NL @ BULLET @ '' B: null''"
  by (simp add: formatEmergencyContacts_def Array_filter_def Array_sort_def Let_def sort_cmp_def
      isUrgentContact_def isGeneralContact_def example_contact_def contactLine_def js_or_def
      js_str_def truthy_def)

text \<open>
  C9 fails on the code: \<open>formatRegistrationResponse\<close> sorts the array it was given, so a
  caller's list of steps that was not in ascending order is in ascending order after the
  call.
\<close>

theorem formatRegistrationResponse_reorders_steps:
  "snd (formatRegistrationResponse
          [example_step 2 ''Interview'', example_step 1 ''Report to the desk''] [] [])
   = ([example_step 1 ''Report to the desk'', example_step 2 ''Interview''], [], [])
   \<and> [example_step 1 ''Report to the desk'', example_step 2 ''Interview'']
      \<noteq> [example_step 2 ''Interview'', example_step 1 ''Report to the desk'']"
  by (simp add: formatRegistrationResponse_def Array_sort_def Array_map_def sort_cmp_def
      example_step_def Let_def)

lemma formatRegistrationResponse_arguments_after:
  "snd (formatRegistrationResponse steps documents contacts)
   = (sort_cmp (\<lambda>a b. step_step_number a - step_step_number b) steps, documents, contacts)"
  by (simp add: formatRegistrationResponse_def Array_sort_def Array_map_def Let_def)

lemma formatEmergencyContacts_argument_after:
  "snd (formatEmergencyContacts contacts) = contacts"
  by (simp add: formatEmergencyContacts_def Array_sort_def Array_filter_def Let_def)


section \<open>Properties of intent resolution and of the pipeline\<close>

lemma message_formatRegistrationResponse:
  "message (fst (formatRegistrationResponse steps documents contacts)) \<noteq> []"
  by (simp add: formatRegistrationResponse_def Array_sort_def Array_map_def Let_def)

lemma message_formatFoodResponse: "message (formatFoodResponse services) \<noteq> []"
  by (simp add: formatFoodResponse_def FOOD_GUIDANCE_MESSAGE_def Let_def)

lemma message_formatHealthcareResponse:
  "message (formatHealthcareResponse services contacts) \<noteq> []"
  by (simp add: formatHealthcareResponse_def Let_def)

lemma message_formatEmergencyContacts: "message (fst (formatEmergencyContacts contacts)) \<noteq> []"
  by (simp add: formatEmergencyContacts_def Array_filter_def Array_sort_def Let_def SIREN_def)

lemma message_handleRegistrationIntent:
  "fst (handleRegistrationIntent svc w) = Inr r \<Longrightarrow> message r \<noteq> []"
  using message_formatRegistrationResponse
  by (auto simp: handleRegistrationIntent_def Let_def split: sum.splits prod.splits)

lemma message_handleFoodIntent: "fst (handleFoodIntent svc w) = Inr r \<Longrightarrow> message r \<noteq> []"
  using message_formatFoodResponse
  by (auto simp: handleFoodIntent_def Let_def split: sum.splits prod.splits)

lemma message_handleShelterIntent: "fst (handleShelterIntent svc w) = Inr r \<Longrightarrow> message r \<noteq> []"
  by (auto simp: handleShelterIntent_def Let_def split: sum.splits prod.splits if_splits)

lemma message_handleHealthcareIntent:
  "fst (handleHealthcareIntent svc w) = Inr r \<Longrightarrow> message r \<noteq> []"
  using message_formatHealthcareResponse
  by (auto simp: handleHealthcareIntent_def Let_def split: sum.splits prod.splits)

lemma message_handleEmergencyContactsIntent:
  "fst (handleEmergencyContactsIntent svc w) = Inr r \<Longrightarrow> message r \<noteq> []"
  using message_formatEmergencyContacts
  by (auto simp: handleEmergencyContactsIntent_def Let_def split: sum.splits prod.splits)

lemmas message_handlers = message_handleRegistrationIntent message_handleFoodIntent
  message_handleShelterIntent message_handleHealthcareIntent message_handleEmergencyContactsIntent

lemma message_handleIntent: "fst (handleIntent svc i w) = Inr r \<Longrightarrow> message r \<noteq> []"
  by (cases i)
     (auto simp: handleIntent_def formatWelcomeResponse_def FALLBACK_RESPONSE_def
           dest: message_handlers)

lemma message_handleMessageWithBuiltInLogic:
  "fst (handleMessageWithBuiltInLogic svc m w) = Inr r \<Longrightarrow> message r \<noteq> []"
  by (simp add: handleMessageWithBuiltInLogic_handleIntent message_handleIntent)

text \<open>
  The handler of the remote path's own intents catches what its branch throws: it always
  returns a response.
\<close>

lemma handleIntentWithCustomLogic_returns:
  "\<exists>r. fst (handleIntentWithCustomLogic svc i w) = Inr r \<and> message r \<noteq> []"
proof -
  define h where "h = (if i = FIND_REGISTRATION then handleRegistrationIntent svc w
             else if i = FIND_FOOD then handleFoodIntent svc w
             else if i = FIND_SHELTER then handleShelterIntent svc w
             else if i = FIND_HEALTHCARE then handleHealthcareIntent svc w
             else if i = FIND_EMERGENCY_CONTACTS then handleEmergencyContactsIntent svc w
             else (Inr CUSTOM_DEFAULT_RESPONSE, [], w))"
  have ok: "\<And>r. fst h = Inr r \<Longrightarrow> message r \<noteq> []"
    unfolding h_def by (auto simp: CUSTOM_DEFAULT_RESPONSE_def split: if_splits dest: message_handlers)
  have "fst (handleIntentWithCustomLogic svc i w) =
          (case fst h of Inr response \<Rightarrow> Inr response | Inl e \<Rightarrow> Inr formatErrorResponse)"
    unfolding handleIntentWithCustomLogic_def h_def [symmetric]
    by (simp add: Let_def split: prod.splits sum.splits)
  then show ?thesis
    using ok by (cases "fst h") (auto simp: formatErrorResponse_def)
qed

lemma message_handleMessageWithDialogflow:
  assumes "fst (handleMessageWithDialogflow svc m sid w) = Inr r"
  shows "message r \<noteq> []"
proof -
  have custom: "\<And>i r' evs w' w''. handleIntentWithCustomLogic svc i w' = (Inr r', evs, w'')
                  \<Longrightarrow> message r' \<noteq> []"
    using handleIntentWithCustomLogic_returns by (metis fst_conv sum.inject(2))
  show ?thesis
    using assms custom
    by (auto simp: handleMessageWithDialogflow_def Let_def truthy_def js_str_def
        split: option.splits if_splits sum.splits prod.splits)
qed

text \<open>
  The remote path throws in three cases only: no client or project, the remote request
  throws, or its answer has no \<open>queryResult\<close>.
\<close>

lemma handleMessageWithDialogflow_throws_iff:
  "fst (handleMessageWithDialogflow svc m sid w) = Inl e \<longleftrightarrow>
     ((sessionsClient svc = None \<or> \<not> truthy (projectId svc))
        \<and> e = Error ''Dialogflow client not initialized'')
     \<or> (\<exists>detectIntent. sessionsClient svc = Some detectIntent \<and> truthy (projectId svc)
          \<and> (fst (detectIntent (projectAgentSessionPath (js_str (projectId svc)) sid) m w) = Inl e
               \<or> fst (detectIntent (projectAgentSessionPath (js_str (projectId svc)) sid) m w) = Inr None
                  \<and> e = Error ''No response from Dialogflow''))"
proof -
  have custom: "\<And>i e' evs w' w''. handleIntentWithCustomLogic svc i w' \<noteq> (Inl e', evs, w'')"
    using handleIntentWithCustomLogic_returns by (metis fst_conv sum.distinct(1))
  show ?thesis
    using custom
    by (auto simp: handleMessageWithDialogflow_def Let_def
        split: option.splits if_splits sum.splits prod.splits)
qed

text \<open>
  What \<open>getResponse\<close> returns: the result of the path taken if that returns, and otherwise
  the result of a run of the keyword rules in the state the failed attempt left.
\<close>

lemma fst_getResponse:
  "fst (getResponse svc m sid w) =
     (let first = (if \<not> isEnabled svc then handleMessageWithBuiltInLogic svc m w
                   else handleMessageWithDialogflow svc m sid w)
      in case fst first of
           Inr response \<Rightarrow> Inr response
         | Inl e \<Rightarrow> fst (handleMessageWithBuiltInLogic svc m (snd (snd first))))"
  by (simp add: getResponse_def Let_def split: prod.splits sum.splits)

lemma message_getResponse:
  "fst (getResponse svc m sid w) = Inr r \<Longrightarrow> message r \<noteq> []"
  unfolding fst_getResponse Let_def
  by (auto split: sum.splits if_splits
      dest: message_handleMessageWithBuiltInLogic message_handleMessageWithDialogflow)

lemma fst_processMessage:
  "fst (processMessage svc m p w) =
     (if m = [] \<or> length (trim m) = 0 then Inr EMPTY_MESSAGE_RESPONSE
      else if length m > 500 then Inr TOO_LONG_RESPONSE
      else case fst (getResponse svc m (generateSessionId p) w) of
             Inr response \<Rightarrow> Inr response
           | Inl e \<Rightarrow> Inr TRY_AGAIN_RESPONSE)"
  by (simp add: processMessage_def Let_def split: prod.splits sum.splits)

lemma trim_replicate:
  "trim (replicate n c) = (if isWhiteSpace c then [] else replicate n c)"
  by (simp add: trim_def dropWhile_replicate)

text \<open>
  C1: for every text that is not whitespace-only and has at most 500 characters,
  \<open>processMessage\<close> returns a response (it does not throw) whose message is not empty; and
  when intent resolution throws, what it returns is the generic try-again response.
\<close>

theorem processMessage_returns_nonempty:
  assumes "trim m \<noteq> []" "length m \<le> 500"
  shows "(\<exists>r. fst (processMessage svc m p w) = Inr r \<and> message r \<noteq> [])
       \<and> (\<forall>e. fst (getResponse svc m (generateSessionId p) w) = Inl e
              \<longrightarrow> fst (processMessage svc m p w) = Inr TRY_AGAIN_RESPONSE)"
proof -
  from assms(1) have ne: "m \<noteq> []" by (auto simp: trim_def)
  show ?thesis
  proof (cases "fst (getResponse svc m (generateSessionId p) w)")
    case (Inl e)
    then show ?thesis using assms ne
      by (simp add: fst_processMessage TRY_AGAIN_RESPONSE_def)
  next
    case (Inr r)
    then show ?thesis using assms ne message_getResponse [OF Inr]
      by (simp add: fst_processMessage)
  qed
qed

theorem processMessage_returns_nonempty_witness:
  "trim ''I need food'' \<noteq> [] \<and> length ''I need food'' \<le> 500
   \<and> (\<exists>r. fst (processMessage example_service_database_down ''I need food'' ''whatsapp:+256700000000'' 0)
            = Inr r \<and> message r \<noteq> [])
   \<and> fst (getResponse example_service_database_down ''I need food''
            (generateSessionId ''whatsapp:+256700000000'') 0)
       = Inl (Error ''Database error: connection refused'')
   \<and> fst (processMessage example_service_database_down ''I need food'' ''whatsapp:+256700000000'' 0)
       = Inr TRY_AGAIN_RESPONSE"
proof -
  have h1: "trim ''I need food'' \<noteq> []" by (simp add: string_eval)
  have h2: "length ''I need food'' \<le> 500" by simp
  have h3: "fst (getResponse example_service_database_down ''I need food''
                  (generateSessionId ''whatsapp:+256700000000'') 0)
            = Inl (Error ''Database error: connection refused'')"
    by (simp add: fst_getResponse handleMessageWithBuiltInLogic_def handleFoodIntent_def
        example_service_database_down_def Let_def string_eval)
  from processMessage_returns_nonempty
         [OF h1 h2, of example_service_database_down "''whatsapp:+256700000000''" 0] h1 h2 h3
  show ?thesis by blast
qed

text \<open>
  C2 fails on the code: with the remote path off and a repository that throws, the
  keyword rules' Food branch throws, the attempt is repeated once and throws again, and
  \<open>getResponse\<close> throws to its caller instead of returning an apology.
\<close>

theorem getResponse_throws_on_fetch_error:
  "builtInIntent ''I need food'' = Food
   \<and> getResponse example_service_database_down ''I need food'' ''default-session'' 0
     = (Inl (Error ''Database error: connection refused''),
        [Call_getServicesByCategory ''Food'', Log ''error'' ''Error in getResponse'',
         Call_getServicesByCategory ''Food''],
        2)"
  by (simp add: getResponse_def handleMessageWithBuiltInLogic_def handleFoodIntent_def
      example_service_database_down_def Let_def string_eval builtInIntent_def)

text \<open>
  C6 fails on the code, by the defect of C2: the keyword rules can throw, and the \<open>catch\<close>
  of \<open>getResponse\<close> then runs them a second time. After a failing remote request they run
  once; with the remote path off they run, and on a failure run again. With a repository
  whose first query fails and whose next succeeds, the text \<open>I need food\<close> gets an error
  when the remote request fails, and the Food response when the remote path is off.
\<close>

theorem getResponse_remote_error_differs_from_disabled:
  "fst (handleMessageWithDialogflow example_service_flaky ''I need food'' ''user-d2hhdHNhcHA6KzI1'' 0)
     = Inl (Error ''14 UNAVAILABLE'')
   \<and> getResponse example_service_flaky ''I need food'' ''user-d2hhdHNhcHA6KzI1'' 0
     = (Inl (Error ''Database error: connection reset''),
        [Log ''debug'' ''Sending request to Dialogflow'',
         Call_detectIntent ''I need food'' ''user-d2hhdHNhcHA6KzI1'',
         Log ''error'' ''Error in getResponse'',
         Call_getServicesByCategory ''Food''],
        1)
   \<and> getResponse
        (example_service_flaky\<lparr>isEnabled := False, sessionsClient := None, projectId := None\<rparr>)
        ''I need food'' ''user-d2hhdHNhcHA6KzI1'' 0
     = (Inr \<lparr>message = FOOD_GUIDANCE_MESSAGE, quickReplies = Some QUICK_REPLIES_FOOD\<rparr>,
        [Call_getServicesByCategory ''Food'', Log ''error'' ''Error in getResponse'',
         Call_getServicesByCategory ''Food''],
        2)"
  by (simp add: getResponse_def handleMessageWithDialogflow_def handleMessageWithBuiltInLogic_def
      handleFoodIntent_def example_service_flaky_def Let_def string_eval truthy_def
      formatFoodResponse_def)

text \<open>
  What does hold: after a failing remote request, \<open>getResponse\<close> returns the result of one
  run of the keyword rules; and whenever the keyword rules do not throw and the remote
  request has left the outside world as it was, that is the result with the remote path
  off.
\<close>

lemma getResponse_remote_error_runs_keyword_rules:
  assumes "isEnabled svc" "handleMessageWithDialogflow svc m sid w = (Inl e, evs, w1)"
  shows "fst (getResponse svc m sid w) = fst (handleMessageWithBuiltInLogic svc m w1)"
  using assms by (simp add: fst_getResponse)

lemma handleIntent_ignores_remote_settings:
  "handleIntent (svc\<lparr>isEnabled := b, sessionsClient := c, projectId := pid\<rparr>) i w
   = handleIntent svc i w"
  by (cases i)
     (simp_all add: handleIntent_def handleRegistrationIntent_def handleFoodIntent_def
        handleShelterIntent_def handleHealthcareIntent_def handleEmergencyContactsIntent_def)

lemma getResponse_remote_error_as_disabled_when_rules_return:
  assumes "isEnabled svc" "handleMessageWithDialogflow svc m sid w = (Inl e, evs, w)"
    and "fst (handleMessageWithBuiltInLogic svc m w) = Inr r"
  shows "fst (getResponse svc m sid w)
         = fst (getResponse (svc\<lparr>isEnabled := False, sessionsClient := c, projectId := pid\<rparr>) m sid' w)"
  using assms
  by (simp add: fst_getResponse handleMessageWithBuiltInLogic_handleIntent
      handleIntent_ignores_remote_settings)

lemma DialogflowService_new_disabled:
  "DialogflowService_new False project newClient byCategory byType allContacts allSteps documents
   = (DialogflowService_new True project newClient byCategory byType allContacts allSteps documents)
       \<lparr>isEnabled := False, sessionsClient := None, projectId := None\<rparr>"
  by (simp add: DialogflowService_new_def Let_def split: sum.splits)

text \<open>
  C7, as stated, fails: a text of 501 blanks is longer than 500 characters and is answered
  by the instruction to send a question, since emptiness is tested first.
\<close>

theorem processMessage_too_long_counterexample:
  "length (replicate 501 (CHR '' '')) > 500
   \<and> fst (processMessage example_service_remote_down (replicate 501 (CHR '' '')) ''whatsapp:+256700000000'' 0)
       = Inr EMPTY_MESSAGE_RESPONSE
   \<and> EMPTY_MESSAGE_RESPONSE \<noteq> TOO_LONG_RESPONSE"
  by (simp add: fst_processMessage trim_replicate isWhiteSpace_def
      EMPTY_MESSAGE_RESPONSE_def TOO_LONG_RESPONSE_def)

text \<open>
  C7, amended: for every empty or whitespace-only text, of any length, \<open>processMessage\<close>
  returns the instruction to send a question; for every text longer than 500 characters
  that is not whitespace-only it returns the too-long message. In both cases its only
  effect is the first log line, and the outside world is left as it was: neither the
  remote service nor a repository is asked.
\<close>

theorem processMessage_validation_first:
  "(m = [] \<or> trim m = [] \<longrightarrow>
      processMessage svc m p w = (Inr EMPTY_MESSAGE_RESPONSE, [Log ''info'' ''Processing user message''], w))
   \<and> (trim m \<noteq> [] \<and> length m > 500 \<longrightarrow>
      processMessage svc m p w = (Inr TOO_LONG_RESPONSE, [Log ''info'' ''Processing user message''], w))"
  by (auto simp: processMessage_def Let_def)

theorem processMessage_validation_first_witness:
  "trim ''   '' = []
   \<and> processMessage example_service_database_down ''   '' ''whatsapp:+256700000000'' 0
       = (Inr EMPTY_MESSAGE_RESPONSE, [Log ''info'' ''Processing user message''], 0)
   \<and> trim (replicate 501 (CHR ''a'')) \<noteq> [] \<and> length (replicate 501 (CHR ''a'')) > 500
   \<and> processMessage example_service_database_down (replicate 501 (CHR ''a'')) ''whatsapp:+256700000000'' 0
       = (Inr TOO_LONG_RESPONSE, [Log ''info'' ''Processing user message''], 0)"
proof -
  have h1: "trim ''   '' = []" by (simp add: string_eval)
  have h2: "trim (replicate 501 (CHR ''a'')) \<noteq> [] \<and> length (replicate 501 (CHR ''a'')) > 500"
    by (simp add: trim_replicate isWhiteSpace_def)
  from processMessage_validation_first
         [of "''   ''" example_service_database_down "''whatsapp:+256700000000''" 0]
       processMessage_validation_first
         [of "replicate 501 (CHR ''a'')" example_service_database_down "''whatsapp:+256700000000''" 0]
       h1 h2
  show ?thesis by blast
qed

section \<open>Properties of the signature check\<close>

text \<open>
  C3, as stated, fails: with the shared secret set and correct but the account
  identifier unset, the service counts as not configured and rejects a request whose
  signature matches.
\<close>

theorem validateWebhookSignature_correct_secret_counterexample:
  "example_validateRequest ''secret'' ''bew/terces'' ''/web'' [] = Inr True
   \<and> fst (validateWebhookSignature
            (TwilioService_new \<lparr>twilioAccountSid = [], twilioAuthToken = ''secret''\<rparr>)
            \<lparr>twilioAccountSid = [], twilioAuthToken = ''secret''\<rparr>
            example_validateRequest ''/web'' [] (Some ''bew/terces''))
       \<noteq> Inr True"
  by (simp add: example_validateRequest_def validateWebhookSignature_def TwilioService_new_def)

text \<open>
  C3, amended: \<open>validateWebhookSignature\<close> never throws. It returns false when the
  signature header is missing or empty, and when the service is not configured, which is
  the case when the shared secret or the account identifier is unset. When the service is
  configured and the header is present, it returns true exactly if the provider's check
  accepts the header for the configured secret, the URL and the body: false for a
  signature that does not match (and when the check throws), true for the matching one.
\<close>

theorem validateWebhookSignature_verdict:
  "(\<exists>b. fst (validateWebhookSignature this cfg validateRequest url body signature) = Inr b)
   \<and> (\<not> truthy signature \<longrightarrow>
        fst (validateWebhookSignature this cfg validateRequest url body signature) = Inr False)
   \<and> (\<not> isConfigured this \<longrightarrow>
        fst (validateWebhookSignature this cfg validateRequest url body signature) = Inr False)
   \<and> (twilioAuthToken cfg = [] \<or> twilioAccountSid cfg = [] \<longrightarrow>
        fst (validateWebhookSignature (TwilioService_new cfg) cfg validateRequest url body signature)
        = Inr False)
   \<and> (isConfigured this \<and> truthy signature \<longrightarrow>
        fst (validateWebhookSignature this cfg validateRequest url body signature)
        = Inr (validateRequest (twilioAuthToken cfg) (js_str signature) url body = Inr True))"
  by (auto simp: validateWebhookSignature_def TwilioService_new_def split: sum.splits)

theorem validateWebhookSignature_verdict_witness:
  "\<not> truthy None
   \<and> fst (validateWebhookSignature
            (TwilioService_new \<lparr>twilioAccountSid = ''AC1'', twilioAuthToken = ''secret''\<rparr>)
            \<lparr>twilioAccountSid = ''AC1'', twilioAuthToken = ''secret''\<rparr>
            example_validateRequest ''/web'' [] None) = Inr False
   \<and> fst (validateWebhookSignature
            (TwilioService_new \<lparr>twilioAccountSid = ''AC1'', twilioAuthToken = []\<rparr>)
            \<lparr>twilioAccountSid = ''AC1'', twilioAuthToken = []\<rparr>
            example_validateRequest ''/web'' [] (Some ''bew/terces'')) = Inr False
   \<and> isConfigured (TwilioService_new \<lparr>twilioAccountSid = ''AC1'', twilioAuthToken = ''secret''\<rparr>)
   \<and> truthy (Some ''bew/terces'') \<and> truthy (Some ''forged'')
   \<and> fst (validateWebhookSignature
            (TwilioService_new \<lparr>twilioAccountSid = ''AC1'', twilioAuthToken = ''secret''\<rparr>)
            \<lparr>twilioAccountSid = ''AC1'', twilioAuthToken = ''secret''\<rparr>
            example_validateRequest ''/web'' [] (Some ''forged'')) = Inr False
   \<and> fst (validateWebhookSignature
            (TwilioService_new \<lparr>twilioAccountSid = ''AC1'', twilioAuthToken = ''secret''\<rparr>)
            \<lparr>twilioAccountSid = ''AC1'', twilioAuthToken = ''secret''\<rparr>
            example_validateRequest ''/web'' [] (Some ''bew/terces'')) = Inr True"
proof -
  let ?cfg = "\<lparr>twilioAccountSid = ''AC1'', twilioAuthToken = ''secret''\<rparr>"
  let ?nosecret = "\<lparr>twilioAccountSid = ''AC1'', twilioAuthToken = []\<rparr>"
  have h1: "\<not> truthy None" by (simp add: truthy_def)
  have h2: "twilioAuthToken ?nosecret = [] \<or> twilioAccountSid ?nosecret = []" by simp
  have h3: "isConfigured (TwilioService_new ?cfg) \<and> truthy (Some ''bew/terces'')"
    by (simp add: TwilioService_new_def truthy_def)
  have h4: "isConfigured (TwilioService_new ?cfg) \<and> truthy (Some ''forged'')"
    by (simp add: TwilioService_new_def truthy_def)
  have v1: "example_validateRequest (twilioAuthToken ?cfg) (js_str (Some ''bew/terces'')) ''/web'' []
            = Inr True"
    by (simp add: example_validateRequest_def js_str_def)
  have v2: "example_validateRequest (twilioAuthToken ?cfg) (js_str (Some ''forged'')) ''/web'' []
            \<noteq> Inr True"
    by (simp add: example_validateRequest_def js_str_def)
  from validateWebhookSignature_verdict
         [of "TwilioService_new ?cfg" ?cfg example_validateRequest "''/web''" "[]" None]
       validateWebhookSignature_verdict
         [of "TwilioService_new ?nosecret" ?nosecret example_validateRequest "''/web''" "[]"
             "Some ''bew/terces''"]
       validateWebhookSignature_verdict
         [of "TwilioService_new ?cfg" ?cfg example_validateRequest "''/web''" "[]" "Some ''forged''"]
       validateWebhookSignature_verdict
         [of "TwilioService_new ?cfg" ?cfg example_validateRequest "''/web''" "[]"
             "Some ''bew/terces''"]
       h1 h2 h3 h4 v1 v2
  show ?thesis by simp
qed

end
